theory Spec2Isabelle
  imports Complex_Main "HOL-Library.Word"
begin

section \<open>Values of the program\<close>

subsection \<open>Doubles\<close>

text \<open>
  The program never computes with its doubles: it copies them, tests them with
  \<open>std::isnan\<close>, compares one with zero and converts between \<open>double\<close> and
  \<open>unsigned\<close>. A double is therefore modelled by its value: a finite number, one of
  the two infinities, or not-a-number. No rounding is involved in any of these operations.
\<close>

datatype double = Finite rat | PlusInf | MinusInf | NaN

fun isnan :: "double \<Rightarrow> bool" where
  "isnan NaN = True"
| "isnan _ = False"

text \<open>The comparison \<open>a > b\<close> of two doubles; every comparison with NaN is false.\<close>

fun double_gt :: "double \<Rightarrow> double \<Rightarrow> bool" where
  "double_gt (Finite a) (Finite b) = (b < a)"
| "double_gt (Finite a) MinusInf = True"
| "double_gt PlusInf (Finite b) = True"
| "double_gt PlusInf MinusInf = True"
| "double_gt _ _ = False"

text \<open>
  The constants of \<open>std::numeric_limits<double>\<close> (header \<open><limits>\<close>, IEEE 754
  binary64): \<open>min()\<close> is the smallest positive normalised value, \<open>max()\<close> the largest
  finite value, \<open>lowest()\<close> the most negative finite value.
\<close>

definition numeric_limits_min :: double where
  "numeric_limits_min = Finite (1 / 2 ^ 1022)"

definition numeric_limits_max :: double where
  "numeric_limits_max = Finite ((2 ^ 53 - 1) * 2 ^ 971)"

definition numeric_limits_lowest :: double where
  "numeric_limits_lowest = Finite (- ((2 ^ 53 - 1) * 2 ^ 971))"

subsection \<open>Conversions between double and unsigned\<close>

type_synonym unsigned = "32 word"

text \<open>
  What ends a call without a result: a conversion the language leaves undefined, a read past
  the end of an array, a read through a pointer to an object whose life has ended, a failed
  \<open>assert\<close>, and the exception \<open>std::bad_function_call\<close>.
\<close>

datatype fault =
  UndefinedConversion | OutOfBoundsRead | DanglingPointer | AssertionFailed | BadFunctionCall

definition trunc :: "rat \<Rightarrow> int" where
  "trunc q = (if 0 \<le> q then \<lfloor>q\<rfloor> else \<lceil>q\<rceil>)"

text \<open>
  A double converted to \<open>unsigned\<close> is truncated towards zero; the conversion is
  undefined when the truncated value is not a value of the destination type.
\<close>

fun double_to_unsigned :: "double \<Rightarrow> unsigned option" where
  "double_to_unsigned (Finite q) =
     (if 0 \<le> trunc q \<and> trunc q < 2 ^ 32 then Some (word_of_int (trunc q)) else None)"
| "double_to_unsigned _ = None"

definition unsigned_to_double :: "unsigned \<Rightarrow> double" where
  "unsigned_to_double u = Finite (of_nat (unat u))"

text \<open>
  A double converted to \<open>int\<close> (32 bits, two's complement) is truncated towards zero as
  well, and the conversion is undefined outside the range of \<open>int\<close>.
\<close>

fun double_to_int :: "double \<Rightarrow> int option" where
  "double_to_int (Finite q) =
     (if - (2 ^ 31) \<le> trunc q \<and> trunc q < 2 ^ 31 then Some (trunc q) else None)"
| "double_to_int _ = None"

section \<open>The data model\<close>

subsection \<open>Result\<close>

record Result =
  resultcode :: int
  optimum :: "double list"
  score :: double

subsection \<open>Bound\<close>

record Bound =
  m_min :: double
  m_max :: double

text \<open>
  The constructor \<open>Bound(double min = numeric_limits<double>::min(),
  double max = numeric_limits<double>::max())\<close>; an omitted argument is \<open>None\<close>.
\<close>

definition Bound_ctor :: "double option \<Rightarrow> double option \<Rightarrow> Bound" where
  "Bound_ctor mn mx =
     \<lparr> m_min = (case mn of None \<Rightarrow> numeric_limits_min | Some v \<Rightarrow> v),
       m_max = (case mx of None \<Rightarrow> numeric_limits_max | Some v \<Rightarrow> v) \<rparr>"

definition Bound_min :: "Bound \<Rightarrow> double" where
  "Bound_min b = m_min b"

definition Bound_max :: "Bound \<Rightarrow> double" where
  "Bound_max b = m_max b"

subsection \<open>StopCriteria\<close>

text \<open>
  The stop condition is a \<open>std::function<bool()>\<close>: it takes no argument, so whatever it
  decides on lives in what it captured. That environment is the type \<open>'u\<close>; a call reads
  it and may change it. A \<open>std::function\<close> may be empty (\<open>None\<close>): it is when it was
  assigned a null pointer or an empty function, and calling it then throws
  \<open>std::bad_function_call\<close>.
\<close>

record 'u StopCriteria =
  m_abs_score_diff :: double
  m_rel_score_diff :: double
  m_stop_score :: double
  m_stop_condition :: "('u \<Rightarrow> bool \<times> 'u) option"
  m_max_iterations :: unsigned

definition StopCriteria_default :: "'u StopCriteria" where
  "StopCriteria_default =
     \<lparr> m_abs_score_diff = NaN, m_rel_score_diff = NaN, m_stop_score = NaN,
       m_stop_condition = Some (\<lambda>e. (False, e)), m_max_iterations = 0 \<rparr>"

definition abs_score_diff_set :: "double \<Rightarrow> 'u StopCriteria \<Rightarrow> 'u StopCriteria" where
  "abs_score_diff_set val sc = sc\<lparr>m_abs_score_diff := val\<rparr>"

definition abs_score_diff :: "'u StopCriteria \<Rightarrow> double" where
  "abs_score_diff sc = m_abs_score_diff sc"


definition rel_score_diff :: "'u StopCriteria \<Rightarrow> double" where
  "rel_score_diff sc = m_rel_score_diff sc"


definition stop_score :: "'u StopCriteria \<Rightarrow> double" where
  "stop_score sc = m_stop_score sc"

text \<open>
  \<open>max_iterations(double val)\<close> assigns the double to the \<open>unsigned\<close> member, which
  converts it; the getter converts the member back to a double.
\<close>

definition max_iterations_set :: "double \<Rightarrow> 'u StopCriteria \<Rightarrow> fault + 'u StopCriteria" where
  "max_iterations_set val sc =
     (case double_to_unsigned val of
        None \<Rightarrow> Inl UndefinedConversion
      | Some u \<Rightarrow> Inr (sc\<lparr>m_max_iterations := u\<rparr>))"

definition max_iterations :: "'u StopCriteria \<Rightarrow> double" where
  "max_iterations sc = unsigned_to_double (m_max_iterations sc)"

text \<open>
  \<open>stop_condition(Fn &&cond)\<close> assigns whatever it is given to the member, an empty
  callable included; \<open>stop_condition()\<close> calls the member.
\<close>

definition stop_condition_set ::
  "('u \<Rightarrow> bool \<times> 'u) option \<Rightarrow> 'u StopCriteria \<Rightarrow> 'u StopCriteria" where
  "stop_condition_set cond sc = sc\<lparr>m_stop_condition := cond\<rparr>"

definition stop_condition :: "'u StopCriteria \<Rightarrow> 'u \<Rightarrow> fault + (bool \<times> 'u)" where
  "stop_condition sc e =
     (case m_stop_condition sc of
        None \<Rightarrow> Inl BadFunctionCall
      | Some cond \<Rightarrow> Inr (cond e))"

section \<open>From a C array to an argument list\<close>

text \<open>\<open>c[i]\<close> on a C array of known extent: reading past the end is a fault.\<close>

definition subscript :: "'a list \<Rightarrow> nat \<Rightarrow> 'a option" where
  "subscript c i = (if i < length c then Some (c ! i) else None)"

text \<open>
  \<open>to_tuple_<I, N, T, C>::call(c)\<close> is \<open>tuple_cat(tuple<T>{c[I]},
  to_tuple_<I-1, N, T, C>::call(c))\<close>, and the empty tuple at \<open>I = 0\<close>. The tuple is the
  list of its components. (A name cannot end in an underscore here: the struct
  \<open>to_tuple_\<close> is \<open>to_tuple\<close>.)
\<close>

fun to_tuple :: "nat \<Rightarrow> nat \<Rightarrow> 'a list \<Rightarrow> 'a list option" where
  "to_tuple 0 N c = Some []"
| "to_tuple (Suc I) N c =
     (case subscript c (Suc I) of
        None \<Rightarrow> None
      | Some x \<Rightarrow> map_option ((#) x) (to_tuple I N c))"

definition carray_tuple :: "nat \<Rightarrow> 'a list \<Rightarrow> 'a list option" where
  "carray_tuple N v = to_tuple N N v"

section \<open>The solver's interface\<close>

text \<open>
  Modelled from the spec: the operations of the consumed optimization engine (section 6 of
  the specification; \<open>nlopt.h\<close> and the solver are not among the sources). A solver
  context is an opaque handle, and what this layer does to the solver is the sequence of
  calls it makes, in order, each with its arguments.
\<close>

type_synonym nlopt_opt = nat

type_synonym addr = nat

datatype nlopt_algorithm = NLOPT_GN_ESCH | NLOPT_LN_SBPLX | NLOPT_LN_NELDERMEAD

datatype nlopt_call =
    Call_create nlopt_algorithm nat nlopt_opt
  | Call_destroy nlopt_opt
  | Call_set_lower_bounds nlopt_opt "double list"
  | Call_set_upper_bounds nlopt_opt "double list"
  | Call_set_ftol_abs nlopt_opt double
  | Call_set_ftol_rel nlopt_opt double
  | Call_set_stopval nlopt_opt double
  | Call_set_maxeval nlopt_opt "int option"
  | Call_set_min_objective nlopt_opt nat addr
  | Call_set_max_objective nlopt_opt nat addr
  | Call_set_local_optimizer nlopt_opt nlopt_opt
  | Call_optimize nlopt_opt "double list"
  | Call_force_stop nlopt_opt
  | Call_srand int

text \<open>
  \<open>Call_create alg n h\<close> is \<open>nlopt_create(alg, n)\<close> returning the handle \<open>h\<close>.
  \<open>Call_set_min_objective h N data\<close> installs the adapter \<open>optfunc<Func, N>\<close> with the
  context pointer \<open>data\<close>.
  The evaluation cap of \<open>nlopt_set_maxeval\<close> is an \<open>int\<close> (the signature of the NLopt C
  interface): the call carries the converted argument, and \<open>None\<close> where the conversion of
  what the source passes is undefined, so that the program does not determine what the
  solver is given.
\<close>

subsection \<open>The optimizer object and the adapter's context\<close>

text \<open>\<open>enum class OptDir { MIN, MAX }\<close>: an \<open>int\<close> underneath, \<open>MIN\<close> is 0 and \<open>MAX\<close> is 1.\<close>

type_synonym OptDir = "32 word"

definition OptDir_MIN :: OptDir where
  "OptDir_MIN = 0"

definition OptDir_MAX :: OptDir where
  "OptDir_MAX = 1"

record 'u NLoptOpt =
  m_stopcr :: "'u StopCriteria"
  m_dir :: OptDir

text \<open>
  The user objective takes its arguments (a list of doubles) and, like the stop condition,
  reads and may change the caller's environment.
\<close>

type_synonym 'u objective = "double list \<Rightarrow> 'u \<Rightarrow> double \<times> 'u"

text \<open>
  \<open>TData<Fn>\<close> is \<open>std::tuple<Fn*, NLoptOpt*, nlopt_opt>\<close>. The objective and the
  optimizer object outlive the call of \<open>optimize\<close> and are not assigned to during it, so
  the two pointers are modelled by what they point to.
\<close>

type_synonym 'u TData = "'u objective \<times> 'u NLoptOpt \<times> nlopt_opt"

subsection \<open>The world\<close>

text \<open>
  \<open>env\<close> is the caller's environment, \<open>calls\<close> the calls made to the solver so far,
  \<open>next_handle\<close> the handle the next \<open>nlopt_create\<close> returns. \<open>stack\<close> holds the
  automatic objects of type \<open>TData\<close> that are alive, innermost last; the address of such
  an object is its position, and an address at or past the top of the stack points to no
  living object.
\<close>

record 'u world =
  env :: 'u
  calls :: "nlopt_call list"
  next_handle :: nlopt_opt
  stack :: "'u TData list"

definition record_call :: "nlopt_call \<Rightarrow> 'u world \<Rightarrow> 'u world" where
  "record_call c w = w\<lparr>calls := calls w @ [c]\<rparr>"

definition deref :: "'u world \<Rightarrow> addr \<Rightarrow> 'u TData option" where
  "deref w a = (if a < length (stack w) then Some (stack w ! a) else None)"

definition nlopt_create :: "nlopt_algorithm \<Rightarrow> nat \<Rightarrow> 'u world \<Rightarrow> nlopt_opt \<times> 'u world" where
  "nlopt_create alg n w =
     (next_handle w,
      record_call (Call_create alg n (next_handle w)) (w\<lparr>next_handle := Suc (next_handle w)\<rparr>))"

definition nlopt_destroy :: "nlopt_opt \<Rightarrow> 'u world \<Rightarrow> 'u world" where
  "nlopt_destroy h w = record_call (Call_destroy h) w"

definition nlopt_set_lower_bounds :: "nlopt_opt \<Rightarrow> double list \<Rightarrow> 'u world \<Rightarrow> 'u world" where
  "nlopt_set_lower_bounds h lb w = record_call (Call_set_lower_bounds h lb) w"

definition nlopt_set_upper_bounds :: "nlopt_opt \<Rightarrow> double list \<Rightarrow> 'u world \<Rightarrow> 'u world" where
  "nlopt_set_upper_bounds h ub w = record_call (Call_set_upper_bounds h ub) w"

definition nlopt_set_ftol_abs :: "nlopt_opt \<Rightarrow> double \<Rightarrow> 'u world \<Rightarrow> 'u world" where
  "nlopt_set_ftol_abs h v w = record_call (Call_set_ftol_abs h v) w"

definition nlopt_set_ftol_rel :: "nlopt_opt \<Rightarrow> double \<Rightarrow> 'u world \<Rightarrow> 'u world" where
  "nlopt_set_ftol_rel h v w = record_call (Call_set_ftol_rel h v) w"

definition nlopt_set_stopval :: "nlopt_opt \<Rightarrow> double \<Rightarrow> 'u world \<Rightarrow> 'u world" where
  "nlopt_set_stopval h v w = record_call (Call_set_stopval h v) w"

definition nlopt_set_maxeval :: "nlopt_opt \<Rightarrow> double \<Rightarrow> 'u world \<Rightarrow> 'u world" where
  "nlopt_set_maxeval h v w = record_call (Call_set_maxeval h (double_to_int v)) w"

definition nlopt_set_min_objective :: "nlopt_opt \<Rightarrow> nat \<Rightarrow> addr \<Rightarrow> 'u world \<Rightarrow> 'u world" where
  "nlopt_set_min_objective h N data w = record_call (Call_set_min_objective h N data) w"

definition nlopt_set_max_objective :: "nlopt_opt \<Rightarrow> nat \<Rightarrow> addr \<Rightarrow> 'u world \<Rightarrow> 'u world" where
  "nlopt_set_max_objective h N data w = record_call (Call_set_max_objective h N data) w"

definition nlopt_set_local_optimizer :: "nlopt_opt \<Rightarrow> nlopt_opt \<Rightarrow> 'u world \<Rightarrow> 'u world" where
  "nlopt_set_local_optimizer h l w = record_call (Call_set_local_optimizer h l) w"

definition nlopt_force_stop :: "nlopt_opt \<Rightarrow> 'u world \<Rightarrow> 'u world" where
  "nlopt_force_stop h w = record_call (Call_force_stop h) w"

definition nlopt_srand :: "int \<Rightarrow> 'u world \<Rightarrow> 'u world" where
  "nlopt_srand s w = record_call (Call_srand s) w"

text \<open>
  Modelled from the spec: the solver's run (section 6: "run synchronously, mutating a
  caller-provided point buffer in place and reporting a numeric termination code plus the
  final score"). The solver is a parameter: from the handle, the point buffer and the world
  it is started in, it gives its termination code, the final content of the buffer, the
  score it writes through the score pointer (\<open>None\<close> when it returns without writing
  one), and what its callbacks did meanwhile (the environment they left and the calls they
  made to the solver).
\<close>

record 'u outcome =
  code :: int
  point :: "double list"
  final_score :: "double option"
  env_after :: 'u
  calls_during :: "nlopt_call list"

type_synonym 'u solver = "nlopt_opt \<Rightarrow> double list \<Rightarrow> 'u world \<Rightarrow> 'u outcome"

text \<open>
  \<open>nlopt_optimize(h, x, opt_f)\<close>: \<open>x\<close> is the content of the point buffer and \<open>f0\<close>
  the content of \<open>*opt_f\<close> before the call; the result is the termination code with the
  content of both after it.
\<close>

definition nlopt_optimize ::
  "'u solver \<Rightarrow> nlopt_opt \<Rightarrow> double list \<Rightarrow> double \<Rightarrow> 'u world
     \<Rightarrow> int \<times> double list \<times> double \<times> 'u world" where
  "nlopt_optimize solver h x f0 w =
     (let w1 = record_call (Call_optimize h x) w;
          out = solver h x w1
      in (code out, point out, (case final_score out of None \<Rightarrow> f0 | Some f \<Rightarrow> f),
          w1\<lparr>env := env_after out, calls := calls w1 @ calls_during out\<rparr>))"

section \<open>The binding to the solver\<close>

subsection \<open>The RAII holder of a solver context\<close>

definition NLopt_ctor :: "nlopt_algorithm \<Rightarrow> nat \<Rightarrow> 'u world \<Rightarrow> nlopt_opt \<times> 'u world" where
  "NLopt_ctor alg n w = nlopt_create alg n w"

definition NLopt_dtor :: "nlopt_opt \<Rightarrow> 'u world \<Rightarrow> 'u world" where
  "NLopt_dtor ptr w = nlopt_destroy ptr w"

subsection \<open>The objective adapter\<close>

text \<open>
  \<open>optfunc<Fn, N>(n, params, gradient, data)\<close>. \<open>params\<close> is the array the solver passes,
  with its extent; \<open>data\<close> is the context pointer installed with the objective. Reading
  through a pointer to an object that is no longer alive, or past the end of \<open>params\<close>,
  is a fault, and so is the exception of an empty stop condition.
\<close>

definition optfunc ::
  "nat \<Rightarrow> nat \<Rightarrow> double list \<Rightarrow> addr \<Rightarrow> 'u world \<Rightarrow> fault + (double \<times> 'u world)" where
  "optfunc N n params data w =
     (if \<not> N \<le> n then Inl AssertionFailed
      else case deref w data of
        None \<Rightarrow> Inl DanglingPointer
      | Some (fnptr, self, h) \<Rightarrow>
          (case stop_condition (m_stopcr self) (env w) of
             Inl thrown \<Rightarrow> Inl thrown
           | Inr (stop, e1) \<Rightarrow>
               (let w1 = w\<lparr>env := e1\<rparr>;
                    w2 = (if stop then nlopt_force_stop h w1 else w1)
                in case carray_tuple N params of
                     None \<Rightarrow> Inl OutOfBoundsRead
                   | Some funval \<Rightarrow>
                       (let (r, e2) = fnptr funval (env w2) in Inr (r, w2\<lparr>env := e2\<rparr>)))))"

subsection \<open>Setting a context up\<close>

text \<open>
  \<open>set_up(nl, func, bounds)\<close> of the optimizer object \<open>self\<close>. \<open>N\<close> is the length of
  \<open>bounds\<close>. The local \<open>data\<close> is pushed on the stack where it is declared and leaves it
  when \<open>set_up\<close> returns.
\<close>

definition set_up ::
  "'u NLoptOpt \<Rightarrow> nlopt_opt \<Rightarrow> 'u objective \<Rightarrow> Bound list \<Rightarrow> 'u world \<Rightarrow> 'u world" where
  "set_up self nl func bounds w0 =
     (let lb = map Bound_min bounds;
          ub = map Bound_max bounds;
          w1 = nlopt_set_lower_bounds nl lb w0;
          w2 = nlopt_set_upper_bounds nl ub w1;
          abs_diff = abs_score_diff (m_stopcr self);
          rel_diff = rel_score_diff (m_stopcr self);
          stopval = stop_score (m_stopcr self);
          w3 = (if \<not> isnan abs_diff then nlopt_set_ftol_abs nl abs_diff w2 else w2);
          w4 = (if \<not> isnan rel_diff then nlopt_set_ftol_rel nl rel_diff w3 else w3);
          w5 = (if \<not> isnan stopval then nlopt_set_stopval nl stopval w4 else w4);
          w6 = (if double_gt (max_iterations (m_stopcr self)) (Finite 0)
                then nlopt_set_maxeval nl (max_iterations (m_stopcr self)) w5 else w5);
          data = length (stack w6);
          w7 = w6\<lparr>stack := stack w6 @ [(func, self, nl)]\<rparr>;
          w8 = (if m_dir self = OptDir_MIN
                  then nlopt_set_min_objective nl (length bounds) data w7
                else if m_dir self = OptDir_MAX
                  then nlopt_set_max_objective nl (length bounds) data w7
                else w7)
      in w8\<lparr>stack := take data (stack w8)\<rparr>)"

subsection \<open>Running\<close>

text \<open>
  The protected \<open>optimize(NLopt &nl, const Input<N> &initvals)\<close>. \<open>Result<N> r;\<close> gives
  the fields of \<open>r\<close> no value: \<open>optimum\<close> and \<open>resultcode\<close> are assigned, while
  \<open>r.score\<close> keeps whatever its storage held (the argument \<open>indeterminate\<close>) until the
  solver writes through \<open>&r.score\<close>.
\<close>

definition optimize_nl ::
  "'u solver \<Rightarrow> nlopt_opt \<Rightarrow> double list \<Rightarrow> double \<Rightarrow> 'u world \<Rightarrow> Result \<times> 'u world" where
  "optimize_nl solver nl initvals indeterminate w =
     (case nlopt_optimize solver nl initvals indeterminate w of
        (rc, x, f, w') \<Rightarrow> (\<lparr>resultcode = rc, optimum = x, score = f\<rparr>, w'))"

text \<open>
  The public \<open>optimize(func, initvals, bounds)\<close> of \<open>NLoptOpt<NLoptAlg<alg>>\<close>. \<open>N\<close> is
  the length of \<open>initvals\<close>. The holder \<open>nl\<close> is destroyed when the function returns.
  \<open>indeterminate\<close> is what the storage of the Result's score held.
\<close>

definition optimize_single ::
  "'u solver \<Rightarrow> nlopt_algorithm \<Rightarrow> 'u NLoptOpt \<Rightarrow> 'u objective \<Rightarrow> double list \<Rightarrow> Bound list
     \<Rightarrow> double \<Rightarrow> 'u world \<Rightarrow> Result \<times> 'u world" where
  "optimize_single solver alg self func initvals bounds indeterminate w0 =
     (case NLopt_ctor alg (length initvals) w0 of
        (nl, w1) \<Rightarrow>
          (case optimize_nl solver nl initvals indeterminate (set_up self nl func bounds w1) of
             (r, w3) \<Rightarrow> (r, NLopt_dtor nl w3)))"

text \<open>
  \<open>optimize\<close> of \<open>NLoptOpt<NLoptAlgComb<glob, loc>>\<close>. The two holders are destroyed in
  the reverse order of their construction.
\<close>

definition optimize_comb ::
  "'u solver \<Rightarrow> nlopt_algorithm \<Rightarrow> nlopt_algorithm \<Rightarrow> 'u NLoptOpt \<Rightarrow> 'u objective
     \<Rightarrow> double list \<Rightarrow> Bound list \<Rightarrow> double \<Rightarrow> 'u world \<Rightarrow> Result \<times> 'u world" where
  "optimize_comb solver glob loc self func initvals bounds indeterminate w0 =
     (case NLopt_ctor glob (length initvals) w0 of
        (nl_glob, w1) \<Rightarrow>
          (case NLopt_ctor loc (length initvals) w1 of
             (nl_loc, w2) \<Rightarrow>
               (let w3 = set_up self nl_glob func bounds w2;
                    w4 = set_up self nl_loc func bounds w3;
                    w5 = nlopt_set_local_optimizer nl_glob nl_loc w4
                in case optimize_nl solver nl_glob initvals indeterminate w5 of
                     (r, w6) \<Rightarrow> (r, NLopt_dtor nl_glob (NLopt_dtor nl_loc w6)))))"

text \<open>
  The constructor \<open>NLoptOpt(StopCriteria stopcr = {})\<close> initialises \<open>m_stopcr\<close> only.
  \<open>m_dir\<close> keeps whatever its storage held: that value is the argument \<open>indeterminate\<close>.
\<close>

definition NLoptOpt_ctor :: "'u StopCriteria \<Rightarrow> OptDir \<Rightarrow> 'u NLoptOpt" where
  "NLoptOpt_ctor stopcr indeterminate = \<lparr>m_stopcr = stopcr, m_dir = indeterminate\<rparr>"

definition set_criteria :: "'u StopCriteria \<Rightarrow> 'u NLoptOpt \<Rightarrow> 'u NLoptOpt" where
  "set_criteria cr self = self\<lparr>m_stopcr := cr\<rparr>"

definition get_criteria :: "'u NLoptOpt \<Rightarrow> 'u StopCriteria" where
  "get_criteria self = m_stopcr self"

definition set_dir :: "OptDir \<Rightarrow> 'u NLoptOpt \<Rightarrow> 'u NLoptOpt" where
  "set_dir dir self = self\<lparr>m_dir := dir\<rparr>"

definition seed :: "int \<Rightarrow> 'u world \<Rightarrow> 'u world" where
  "seed s w = nlopt_srand s w"

section \<open>The optimizer front end\<close>

datatype Method = NLoptAlg nlopt_algorithm | NLoptAlgComb nlopt_algorithm nlopt_algorithm

definition AlgNLoptGenetic :: Method where
  "AlgNLoptGenetic = NLoptAlgComb NLOPT_GN_ESCH NLOPT_LN_NELDERMEAD"

definition AlgNLoptSubplex :: Method where
  "AlgNLoptSubplex = NLoptAlg NLOPT_LN_SBPLX"

definition AlgNLoptSimplex :: Method where
  "AlgNLoptSimplex = NLoptAlg NLOPT_LN_NELDERMEAD"

record 'u Optimizer =
  m_opt :: "'u NLoptOpt"

definition Optimizer_ctor :: "'u StopCriteria \<Rightarrow> OptDir \<Rightarrow> 'u Optimizer" where
  "Optimizer_ctor stopcr indeterminate = \<lparr>m_opt = NLoptOpt_ctor stopcr indeterminate\<rparr>"

definition to_max :: "'u Optimizer \<Rightarrow> 'u Optimizer" where
  "to_max opt = opt\<lparr>m_opt := set_dir OptDir_MAX (m_opt opt)\<rparr>"

definition to_min :: "'u Optimizer \<Rightarrow> 'u Optimizer" where
  "to_min opt = opt\<lparr>m_opt := set_dir OptDir_MIN (m_opt opt)\<rparr>"

text \<open>
  \<open>Optimizer<detail::NLoptOpt<M>>::optimize\<close>, which hands over to the binding of the
  tag \<open>M\<close>.
\<close>

fun optimize ::
  "'u solver \<Rightarrow> Method \<Rightarrow> 'u Optimizer \<Rightarrow> 'u objective \<Rightarrow> double list \<Rightarrow> Bound list
     \<Rightarrow> double \<Rightarrow> 'u world \<Rightarrow> Result \<times> 'u world" where
  "optimize solver (NLoptAlg alg) opt func initvals bounds indeterminate w =
     optimize_single solver alg (m_opt opt) func initvals bounds indeterminate w"
| "optimize solver (NLoptAlgComb glob loc) opt func initvals bounds indeterminate w =
     optimize_comb solver glob loc (m_opt opt) func initvals bounds indeterminate w"

section \<open>Observing the calls made to the solver\<close>

text \<open>The calls made between an earlier world and a later one.\<close>

definition new_calls :: "'u world \<Rightarrow> 'u world \<Rightarrow> nlopt_call list" where
  "new_calls w w' = drop (length (calls w)) (calls w')"

text \<open>The calls that configure a stop criterion, and those that install an objective.\<close>

fun is_stop_setting :: "nlopt_call \<Rightarrow> bool" where
  "is_stop_setting (Call_set_ftol_abs h v) = True"
| "is_stop_setting (Call_set_ftol_rel h v) = True"
| "is_stop_setting (Call_set_stopval h v) = True"
| "is_stop_setting (Call_set_maxeval h v) = True"
| "is_stop_setting c = False"

fun is_objective :: "nlopt_call \<Rightarrow> bool" where
  "is_objective (Call_set_min_objective h N data) = True"
| "is_objective (Call_set_max_objective h N data) = True"
| "is_objective c = False"

text \<open>The calls that begin and end the life of a context.\<close>

fun is_lifetime :: "nlopt_call \<Rightarrow> bool" where
  "is_lifetime (Call_create alg n h) = True"
| "is_lifetime (Call_destroy h) = True"
| "is_lifetime c = False"

text \<open>
  The contexts a call of \<open>optimize\<close> is to hold, with their algorithms, when the next free
  handle is \<open>h\<close>: one for a single algorithm, two for a global one with a local one.
\<close>

fun acquired :: "Method \<Rightarrow> nlopt_opt \<Rightarrow> (nlopt_algorithm \<times> nlopt_opt) list" where
  "acquired (NLoptAlg alg) h = [(alg, h)]"
| "acquired (NLoptAlgComb glob loc) h = [(glob, h), (loc, Suc h)]"


section \<open>Basic facts\<close>

lemma calls_record_call: "calls (record_call c w) = calls w @ [c]"
  by (simp add: record_call_def)

lemma stack_record_call: "stack (record_call c w) = stack w"
  by (simp add: record_call_def)


lemma next_handle_record_call: "next_handle (record_call c w) = next_handle w"
  by (simp add: record_call_def)

lemmas nlopt_defs = nlopt_set_lower_bounds_def nlopt_set_upper_bounds_def nlopt_set_ftol_abs_def
  nlopt_set_ftol_rel_def nlopt_set_stopval_def nlopt_set_maxeval_def nlopt_set_min_objective_def
  nlopt_set_max_objective_def nlopt_set_local_optimizer_def nlopt_force_stop_def nlopt_destroy_def

text \<open>The iteration cap is an unsigned number: as a double it is positive unless it is 0.\<close>

lemma max_iterations_gt_0:
  "double_gt (max_iterations cr) (Finite 0) \<longleftrightarrow> m_max_iterations cr \<noteq> 0"
proof -
  have "(0::rat) < of_nat (unat (m_max_iterations cr)) \<longleftrightarrow> 0 < unat (m_max_iterations cr)"
    by (rule of_nat_0_less_iff)
  also have "\<dots> \<longleftrightarrow> m_max_iterations cr \<noteq> 0"
    by (rule unat_gt_0)
  finally show ?thesis
    unfolding max_iterations_def unsigned_to_double_def double_gt.simps .
qed

text \<open>What \<open>set_up\<close> does to each component of the world.\<close>

lemma calls_set_up:
  "calls (set_up self nl func bounds w) =
     calls w @
     [Call_set_lower_bounds nl (map Bound_min bounds),
      Call_set_upper_bounds nl (map Bound_max bounds)] @
     (if isnan (abs_score_diff (m_stopcr self)) then []
      else [Call_set_ftol_abs nl (abs_score_diff (m_stopcr self))]) @
     (if isnan (rel_score_diff (m_stopcr self)) then []
      else [Call_set_ftol_rel nl (rel_score_diff (m_stopcr self))]) @
     (if isnan (stop_score (m_stopcr self)) then []
      else [Call_set_stopval nl (stop_score (m_stopcr self))]) @
     (if m_max_iterations (m_stopcr self) = 0 then []
      else [Call_set_maxeval nl (double_to_int (max_iterations (m_stopcr self)))]) @
     (if m_dir self = OptDir_MIN
        then [Call_set_min_objective nl (length bounds) (length (stack w))]
      else if m_dir self = OptDir_MAX
        then [Call_set_max_objective nl (length bounds) (length (stack w))]
      else [])"
  by (simp add: set_up_def Let_def nlopt_defs max_iterations_gt_0 calls_record_call
      stack_record_call)

lemma stack_set_up: "stack (set_up self nl func bounds w) = stack w"
  by (simp add: set_up_def Let_def nlopt_defs stack_record_call)


lemma next_handle_set_up: "next_handle (set_up self nl func bounds w) = next_handle w"
  by (simp add: set_up_def Let_def nlopt_defs next_handle_record_call)

text \<open>
  The components the unpacking reads: from index \<open>I\<close> down to index 1, so its result is
  defined only when index \<open>I\<close> exists.
\<close>

lemma to_tuple_eq:
  "to_tuple I N c =
     (if I = 0 then Some [] else if I < length c then Some (rev (take I (tl c))) else None)"
proof (induction I)
  case 0
  then show ?case by simp
next
  case (Suc I)
  show ?case
  proof (cases "Suc I < length c")
    case True
    then have "take (Suc I) (tl c) = take I (tl c) @ [c ! Suc I]"
      by (simp add: take_Suc_conv_app_nth nth_tl)
    with True Suc show ?thesis by (simp add: subscript_def)
  next
    case False
    then show ?thesis by (simp add: subscript_def)
  qed
qed

lemma carray_tuple_eq:
  "carray_tuple N v =
     (if N = 0 then Some [] else if N < length v then Some (rev (take N (tl v))) else None)"
  unfolding carray_tuple_def by (rule to_tuple_eq)

lemma new_calls_append: "calls w' = calls w @ cs \<Longrightarrow> new_calls w w' = cs"
  by (simp add: new_calls_def)

lemma deref_set_up: "deref (set_up self nl func bounds w) (length (stack w)) = None"
  by (simp add: deref_def stack_set_up)

lemma filter_lifetime_set_up:
  "filter is_lifetime (new_calls w (set_up self nl func bounds w)) = []"
  by (simp add: new_calls_append [OF calls_set_up])

lemma calls_set_up_prefix:
  "calls (set_up self nl func bounds w) = calls w @ new_calls w (set_up self nl func bounds w)"
  by (simp add: new_calls_append [OF calls_set_up] calls_set_up)

text \<open>The run itself: the result is what the solver reports, the world what it left.\<close>

lemma optimize_nl_eq:
  "optimize_nl solver nl initvals indeterminate w =
     (\<lparr>resultcode = code (solver nl initvals (record_call (Call_optimize nl initvals) w)),
       optimum = point (solver nl initvals (record_call (Call_optimize nl initvals) w)),
       score =
         (case final_score (solver nl initvals (record_call (Call_optimize nl initvals) w)) of
            None \<Rightarrow> indeterminate
          | Some f \<Rightarrow> f)\<rparr>,
      (record_call (Call_optimize nl initvals) w)
        \<lparr>env := env_after (solver nl initvals (record_call (Call_optimize nl initvals) w)),
         calls := calls (record_call (Call_optimize nl initvals) w) @
                  calls_during (solver nl initvals (record_call (Call_optimize nl initvals) w))\<rparr>)"
  by (simp add: optimize_nl_def nlopt_optimize_def Let_def)



lemma trunc_of_int: "trunc (of_int k) = k"
  by (simp add: trunc_def)

lemma max_iterations_eq_0:
  "max_iterations cr = Finite 0 \<longleftrightarrow> m_max_iterations cr = 0"
  by (simp add: max_iterations_def unsigned_to_double_def unsigned_eq_0_iff)

text \<open>An iteration cap below \<open>2^31\<close> reaches the solver as it is.\<close>

lemma trunc_of_nat: "trunc (of_nat n) = int n"
  by (simp add: trunc_def)

lemma double_to_int_max_iterations:
  assumes "unat (m_max_iterations cr) < 2 ^ 31"
  shows "double_to_int (max_iterations cr) = Some (int (unat (m_max_iterations cr)))"
proof -
  have "int (unat (m_max_iterations cr)) < 2 ^ 31"
    using assms by (simp only: of_nat_less_numeral_power_cancel_iff)
  moreover have "- (2 ^ 31) \<le> int (unat (m_max_iterations cr))"
    by (rule order_trans [of _ 0]) simp_all
  ultimately show ?thesis
    unfolding max_iterations_def unsigned_to_double_def double_to_int.simps trunc_of_nat
    by simp
qed

section \<open>The claims\<close>

subsection \<open>C1: the arguments the adapter passes to the objective\<close>

text \<open>
  C1 says that the adapter passes the first \<open>N\<close> values of the array, indices 0 to
  \<open>N - 1\<close> in order, to the user objective and returns its score. The code reads index
  \<open>I\<close> where the recursion counts \<open>I\<close> down from \<open>N\<close> to 1 (see \<open>to_tuple_eq\<close>), so it
  passes the values at indices \<open>N\<close> down to 1. With \<open>N = 2\<close>, an objective that returns
  its first argument and notes its arguments in the environment, and the array
  \<open>1, 2, 3\<close>, the objective is called with \<open>3, 2\<close> and the score is 3, where C1 gives the
  arguments \<open>1, 2\<close> and the score 1. On the array \<open>1, 2\<close> of exactly \<open>N\<close> values, which
  is what a solver of dimension \<open>N\<close> passes, the adapter reads past the end.
\<close>

theorem optfunc_argument_indices:
  "map_sum id (\<lambda>(r, w). (r, env w, calls w))
     (optfunc 2 3 [Finite 1, Finite 2, Finite 3] 0
        \<lparr>env = [], calls = [], next_handle = 1,
         stack = [(\<lambda>args e. (hd args, e @ [args]),
                   NLoptOpt_ctor StopCriteria_default OptDir_MIN, 0)]\<rparr>)
     = Inr (Finite 3, [[Finite 3, Finite 2]], [])
   \<and> map_sum id (\<lambda>(r, w). (r, env w, calls w))
     (optfunc 2 2 [Finite 1, Finite 2] 0
        \<lparr>env = [], calls = [], next_handle = 1,
         stack = [(\<lambda>args e. (hd args, e @ [args]),
                   NLoptOpt_ctor StopCriteria_default OptDir_MIN, 0)]\<rparr>)
     = Inl OutOfBoundsRead"
  by (simp add: optfunc_def deref_def stop_condition_def NLoptOpt_ctor_def
      StopCriteria_default_def carray_tuple_eq)

subsection \<open>C2: the context of the adapter\<close>

text \<open>
  The context tuple is the local variable \<open>data\<close> of \<open>set_up\<close>, and its address is what
  the solver is given. When \<open>set_up\<close> has returned, that address points to no living
  object, so no call of the adapter through it returns a score.
\<close>

lemma set_up_installs_dangling_context:
  assumes "m_dir self = OptDir_MIN \<or> m_dir self = OptDir_MAX"
  shows "filter is_objective (new_calls w (set_up self nl func bounds w)) =
           [if m_dir self = OptDir_MIN
            then Call_set_min_objective nl (length bounds) (length (stack w))
            else Call_set_max_objective nl (length bounds) (length (stack w))]
         \<and> optfunc (length bounds) n params (length (stack w)) (set_up self nl func bounds w) \<noteq> Inr res"
  using assms
  by (auto simp add: new_calls_append [OF calls_set_up] optfunc_def deref_set_up)

text \<open>
  C2 says that the context captured for the adapter stays valid for the whole run of the
  solver. For a one-dimensional minimisation with the default criteria in an empty world:
  after the context is created and set up, the solver holds the context address 0, nothing
  lives at that address, and the adapter called with it faults. The run of the solver
  only starts after that.
\<close>

theorem context_dangling_after_set_up:
  "calls (set_up (NLoptOpt_ctor StopCriteria_default OptDir_MIN) 0 (\<lambda>args e. (hd args, e))
            [Bound_ctor (Some (Finite (- 1))) (Some (Finite 1))]
            (snd (NLopt_ctor NLOPT_LN_SBPLX 1 \<lparr>env = (), calls = [], next_handle = 0, stack = []\<rparr>)))
     = [Call_create NLOPT_LN_SBPLX 1 0,
        Call_set_lower_bounds 0 [Finite (- 1)], Call_set_upper_bounds 0 [Finite 1],
        Call_set_min_objective 0 1 0]
   \<and> deref (set_up (NLoptOpt_ctor StopCriteria_default OptDir_MIN) 0 (\<lambda>args e. (hd args, e))
            [Bound_ctor (Some (Finite (- 1))) (Some (Finite 1))]
            (snd (NLopt_ctor NLOPT_LN_SBPLX 1 \<lparr>env = (), calls = [], next_handle = 0, stack = []\<rparr>))) 0
     = None
   \<and> optfunc 1 1 [Finite 0] 0
        (set_up (NLoptOpt_ctor StopCriteria_default OptDir_MIN) 0 (\<lambda>args e. (hd args, e))
            [Bound_ctor (Some (Finite (- 1))) (Some (Finite 1))]
            (snd (NLopt_ctor NLOPT_LN_SBPLX 1 \<lparr>env = (), calls = [], next_handle = 0, stack = []\<rparr>)))
     = Inl DanglingPointer"
  by (simp add: calls_set_up deref_def stack_set_up optfunc_def NLopt_ctor_def nlopt_create_def
      record_call_def NLoptOpt_ctor_def StopCriteria_default_def abs_score_diff_def
      rel_score_diff_def stop_score_def Bound_ctor_def Bound_min_def Bound_max_def
      OptDir_MIN_def)

subsection \<open>C3: the default Bound\<close>

text \<open>
  C3 says that a default-constructed Bound is the widest range of doubles: its \<open>min()\<close>
  is the lowest representable double and its \<open>max()\<close> the highest. The default of the
  constructor's first argument is \<open>numeric_limits<double>::min()\<close>, the smallest
  positive normalised double, not \<open>lowest()\<close>: the default range starts above zero, and
  zero and every negative number lie outside it. The upper end is as C3 says.
\<close>

theorem Bound_default_range:
  "Bound_min (Bound_ctor None None) = numeric_limits_min
   \<and> Bound_max (Bound_ctor None None) = numeric_limits_max
   \<and> Bound_min (Bound_ctor None None) \<noteq> numeric_limits_lowest
   \<and> double_gt (Bound_min (Bound_ctor None None)) (Finite 0)
   \<and> double_gt (Finite 0) numeric_limits_lowest"
  by (simp add: Bound_min_def Bound_max_def Bound_ctor_def numeric_limits_min_def
      numeric_limits_lowest_def)

subsection \<open>C4: the composed optimizer\<close>


subsection \<open>C5: the stop condition is polled first\<close>

text \<open>
  What the adapter does when its context lives and its reads are in range: it calls the
  stop condition first, signals a forced stop when that returned true, then applies the
  user objective and returns its score.
\<close>

lemma optfunc_with_living_context:
  assumes "N \<le> n"
    and "deref w data = Some (fnptr, self, h)"
    and "m_stop_condition (m_stopcr self) = Some cond"
    and "carray_tuple N params = Some args"
  shows "optfunc N n params data w =
     (case cond (env w) of
        (stop, e1) \<Rightarrow>
          (case fnptr args e1 of
             (r, e2) \<Rightarrow>
               Inr (r, w\<lparr>env := e2,
                         calls := calls w @ (if stop then [Call_force_stop h] else [])\<rparr>)))"
  using assms
  by (simp add: optfunc_def stop_condition_def nlopt_force_stop_def record_call_def
      split: prod.splits)

text \<open>
  C5 says that on every invocation of the adapter the stop condition is evaluated, a forced
  stop is signalled when it returns true, and the score of the user objective is returned.
  In a run of \<open>optimize\<close> the adapter is invoked with the context address that \<open>set_up\<close>
  installed, and nothing lives there any more (the defect of C2): with a stop condition
  that is always true, the call faults before the stop condition is read, no forced stop
  is signalled and no score is returned. Were the context alive, the array of exactly
  \<open>N\<close> values that a solver of dimension \<open>N\<close> passes is read past its end (the defect of
  C1), and again no score is returned.
\<close>

theorem adapter_in_a_run_polls_nothing:
  "optfunc 1 1 [Finite 0] 0
     (set_up (NLoptOpt_ctor (stop_condition_set (Some (Pair True)) StopCriteria_default) OptDir_MIN)
        0 (curry (apfst hd)) [Bound_ctor (Some (Finite (- 1))) (Some (Finite 1))]
        (snd (NLopt_ctor NLOPT_LN_SBPLX 1 \<lparr>env = (), calls = [], next_handle = 0, stack = []\<rparr>)))
     = Inl DanglingPointer
   \<and> optfunc 1 1 [Finite 0] 0
        \<lparr>env = (), calls = [], next_handle = 1,
         stack = [(curry (apfst hd),
                   NLoptOpt_ctor (stop_condition_set (Some (Pair True)) StopCriteria_default)
                     OptDir_MIN, 0)]\<rparr>
     = Inl OutOfBoundsRead"
  by (simp add: optfunc_def deref_def stack_set_up NLopt_ctor_def nlopt_create_def
      record_call_def NLoptOpt_ctor_def stop_condition_set_def StopCriteria_default_def
      stop_condition_def carray_tuple_eq nlopt_force_stop_def)

subsection \<open>C6: stop criteria that are set, and those that are not\<close>

text \<open>
  C6 says that each field that is set is translated into the corresponding call, the
  iteration cap into the maximum number of evaluations. \<open>max_iterations\<close> is unsigned
  and the solver's cap is an \<open>int\<close>: the cap 3000000000, which the setter stores as it
  is, has no defined conversion, and the call that \<open>set_up\<close> makes does not carry it.
\<close>

theorem maxeval_conversion_counterexample:
  "map_sum id max_iterations
     (max_iterations_set (Finite 3000000000) (StopCriteria_default :: unit StopCriteria))
     = Inr (Finite 3000000000)
   \<and> filter is_stop_setting
       (new_calls \<lparr>env = (), calls = [], next_handle = 1, stack = []\<rparr>
          (set_up
             (NLoptOpt_ctor
                (projr (max_iterations_set (Finite 3000000000) StopCriteria_default)) OptDir_MIN)
             0 (curry (apfst hd)) [Bound_ctor (Some (Finite 0)) (Some (Finite 1))]
             \<lparr>env = (), calls = [], next_handle = 1, stack = []\<rparr>))
     = [Call_set_maxeval 0 None]
   \<and> [Call_set_maxeval 0 None] \<noteq> [Call_set_maxeval 0 (Some 3000000000)]"
proof -
  have t: "trunc 3000000000 = 3000000000"
    using trunc_of_int [of 3000000000] by simp
  have s: "max_iterations_set (Finite 3000000000) (StopCriteria_default :: unit StopCriteria)
      = Inr (StopCriteria_default\<lparr>m_max_iterations := 3000000000\<rparr>)"
    by (simp add: max_iterations_set_def t)
  have m: "max_iterations
      ((StopCriteria_default :: unit StopCriteria)\<lparr>m_max_iterations := 3000000000\<rparr>)
      = Finite 3000000000"
    by (simp add: max_iterations_def unsigned_to_double_def)
  have c: "filter is_stop_setting
       (new_calls \<lparr>env = (), calls = [], next_handle = 1, stack = []\<rparr>
          (set_up
             (NLoptOpt_ctor
                ((StopCriteria_default :: unit StopCriteria)\<lparr>m_max_iterations := 3000000000\<rparr>)
                OptDir_MIN)
             0 (curry (apfst hd)) [Bound_ctor (Some (Finite 0)) (Some (Finite 1))]
             \<lparr>env = (), calls = [], next_handle = 1, stack = []\<rparr>))
     = [Call_set_maxeval 0 None]"
    by (simp add: new_calls_append [OF calls_set_up] NLoptOpt_ctor_def m t)
      (simp add: StopCriteria_default_def abs_score_diff_def rel_score_diff_def stop_score_def)
  from m c show ?thesis by (simp add: s)
qed

text \<open>
  C6 as amended: among the calls \<open>set_up\<close> makes, those that configure a stop criterion
  are exactly: the absolute tolerance unless \<open>abs_score_diff\<close> is NaN, the relative
  tolerance unless \<open>rel_score_diff\<close> is NaN, the stop value unless \<open>stop_score\<close> is NaN,
  and the maximum number of evaluations unless \<open>max_iterations\<close> is 0; each once, in this
  order, the tolerances and the stop value with the value of their field, the maximum
  number of evaluations with \<open>max_iterations\<close> converted to \<open>int\<close>, which is the value
  of the field when that is below \<open>2^31\<close>.
\<close>

theorem set_up_stop_settings:
  "filter is_stop_setting (new_calls w (set_up self nl func bounds w)) =
     (if isnan (abs_score_diff (m_stopcr self)) then []
      else [Call_set_ftol_abs nl (abs_score_diff (m_stopcr self))]) @
     (if isnan (rel_score_diff (m_stopcr self)) then []
      else [Call_set_ftol_rel nl (rel_score_diff (m_stopcr self))]) @
     (if isnan (stop_score (m_stopcr self)) then []
      else [Call_set_stopval nl (stop_score (m_stopcr self))]) @
     (if max_iterations (m_stopcr self) = Finite 0 then []
      else [Call_set_maxeval nl (double_to_int (max_iterations (m_stopcr self)))])
   \<and> (unat (m_max_iterations (m_stopcr self)) < 2 ^ 31 \<longrightarrow>
        double_to_int (max_iterations (m_stopcr self)) =
          Some (int (unat (m_max_iterations (m_stopcr self)))))"
  by (simp add: new_calls_append [OF calls_set_up] max_iterations_eq_0
      double_to_int_max_iterations)

theorem set_up_stop_settings_witness:
  "unat (m_max_iterations ((StopCriteria_default :: unit StopCriteria)\<lparr>m_max_iterations := 500\<rparr>))
     < 2 ^ 31
   \<and> filter is_stop_setting
     (new_calls \<lparr>env = (), calls = [], next_handle = 1, stack = []\<rparr>
        (set_up (NLoptOpt_ctor
                   (abs_score_diff_set (Finite (1 / 1000))
                      (StopCriteria_default\<lparr>m_max_iterations := 500\<rparr>)) OptDir_MIN)
           0 (\<lambda>args e. (Finite 0, e)) [Bound_ctor (Some (Finite 0)) (Some (Finite 1))]
           \<lparr>env = (), calls = [], next_handle = 1, stack = []\<rparr>))
   = [Call_set_ftol_abs 0 (Finite (1 / 1000)), Call_set_maxeval 0 (Some 500)]"
  using set_up_stop_settings [where w = "\<lparr>env = (), calls = [], next_handle = 1, stack = []\<rparr>"
      and self = "NLoptOpt_ctor (abs_score_diff_set (Finite (1 / 1000))
                      ((StopCriteria_default :: unit StopCriteria)\<lparr>m_max_iterations := 500\<rparr>)) OptDir_MIN"
      and nl = 0 and func = "\<lambda>args e. (Finite 0, e)"
      and bounds = "[Bound_ctor (Some (Finite 0)) (Some (Finite 1))]"]
  by (simp add: NLoptOpt_ctor_def abs_score_diff_set_def StopCriteria_default_def
      abs_score_diff_def rel_score_diff_def stop_score_def max_iterations_def
      unsigned_to_double_def)

subsection \<open>C7: the result of a run\<close>





subsection \<open>C8: contexts are acquired and released\<close>

text \<open>
  C8: up to the start of the solver, a call of \<open>optimize\<close> creates exactly the contexts
  of its tag (one, or two for a composed tag), on handles not used before, and destroys
  none. When the solver has returned, whatever its termination code, the call destroys
  these contexts, last created first, and does nothing else to the solver.
\<close>

theorem optimize_acquires_and_releases:
  "\<exists>w_run.
      take (length (calls w0)) (calls w_run) = calls w0
    \<and> filter is_lifetime (new_calls w0 w_run) =
        map (\<lambda>(alg, h). Call_create alg (length initvals) h) (acquired tag (next_handle w0))
    \<and> fst (optimize solver tag opt func initvals bounds indeterminate w0) =
          \<lparr>resultcode = code (solver (next_handle w0) initvals w_run),
           optimum = point (solver (next_handle w0) initvals w_run),
           score = (case final_score (solver (next_handle w0) initvals w_run) of
                      None \<Rightarrow> indeterminate | Some f \<Rightarrow> f)\<rparr>
    \<and> calls (snd (optimize solver tag opt func initvals bounds indeterminate w0)) =
        calls w_run @ calls_during (solver (next_handle w0) initvals w_run) @
        map Call_destroy (rev (map snd (acquired tag (next_handle w0))))
    \<and> next_handle (snd (optimize solver tag opt func initvals bounds indeterminate w0)) =
        next_handle w0 + length (acquired tag (next_handle w0))"
proof (cases tag)
  case (NLoptAlg alg)
  define w1 where "w1 = snd (NLopt_ctor alg (length initvals) w0)"
  define w2 where "w2 = set_up (m_opt opt) (next_handle w0) func bounds w1"
  define w_run where "w_run = record_call (Call_optimize (next_handle w0) initvals) w2"
  have c1: "calls w1 = calls w0 @ [Call_create alg (length initvals) (next_handle w0)]"
    and n1: "next_handle w1 = Suc (next_handle w0)"
    by (simp_all add: w1_def NLopt_ctor_def nlopt_create_def record_call_def)
  have c_run: "calls w_run = calls w0 @ [Call_create alg (length initvals) (next_handle w0)] @
      new_calls w1 w2 @ [Call_optimize (next_handle w0) initvals]"
    unfolding w_run_def w2_def by (simp add: calls_record_call calls_set_up_prefix c1)
  have a: "take (length (calls w0)) (calls w_run) = calls w0"
    by (simp add: c_run)
  have b: "filter is_lifetime (new_calls w0 w_run) =
        map (\<lambda>(alg, h). Call_create alg (length initvals) h) (acquired tag (next_handle w0))"
    by (simp add: new_calls_append [OF c_run] NLoptAlg w2_def filter_lifetime_set_up)
  have opt: "optimize solver tag opt func initvals bounds indeterminate w0 =
      (\<lparr>resultcode = code (solver (next_handle w0) initvals w_run),
           optimum = point (solver (next_handle w0) initvals w_run),
           score = (case final_score (solver (next_handle w0) initvals w_run) of
                      None \<Rightarrow> indeterminate | Some f \<Rightarrow> f)\<rparr>,
       NLopt_dtor (next_handle w0)
         (w_run\<lparr>env := env_after (solver (next_handle w0) initvals w_run),
                calls := calls w_run @ calls_during (solver (next_handle w0) initvals w_run)\<rparr>))"
    by (simp add: NLoptAlg optimize_single_def optimize_nl_eq w_run_def w2_def w1_def NLopt_ctor_def
        nlopt_create_def)
  have n_run: "next_handle w_run = Suc (next_handle w0)"
    by (simp add: w_run_def w2_def next_handle_record_call next_handle_set_up n1)
  have c: "calls (snd (optimize solver tag opt func initvals bounds indeterminate w0)) =
        calls w_run @ calls_during (solver (next_handle w0) initvals w_run) @
        map Call_destroy (rev (map snd (acquired tag (next_handle w0))))"
    unfolding opt by (simp add: NLopt_dtor_def nlopt_destroy_def calls_record_call NLoptAlg)
  have d: "next_handle (snd (optimize solver tag opt func initvals bounds indeterminate w0)) =
        next_handle w0 + length (acquired tag (next_handle w0))"
    unfolding opt by (simp add: NLopt_dtor_def nlopt_destroy_def next_handle_record_call NLoptAlg n_run)
  from a b c d opt show ?thesis by (intro exI [of _ w_run]) simp
next
  case (NLoptAlgComb glob loc)
  define w1 where "w1 = snd (NLopt_ctor glob (length initvals) w0)"
  define w2 where "w2 = snd (NLopt_ctor loc (length initvals) w1)"
  define w3 where "w3 = set_up (m_opt opt) (next_handle w0) func bounds w2"
  define w4 where "w4 = set_up (m_opt opt) (Suc (next_handle w0)) func bounds w3"
  define w_run where "w_run = record_call (Call_optimize (next_handle w0) initvals)
     (nlopt_set_local_optimizer (next_handle w0) (Suc (next_handle w0)) w4)"
  have c2: "calls w2 = calls w0 @ [Call_create glob (length initvals) (next_handle w0),
        Call_create loc (length initvals) (Suc (next_handle w0))]"
    and n2: "next_handle w2 = Suc (Suc (next_handle w0))"
    and n1: "next_handle w1 = Suc (next_handle w0)"
    by (simp_all add: w2_def w1_def NLopt_ctor_def nlopt_create_def record_call_def)
  have c_run: "calls w_run = calls w0 @ [Call_create glob (length initvals) (next_handle w0),
        Call_create loc (length initvals) (Suc (next_handle w0))] @
      new_calls w2 w3 @ new_calls w3 w4 @
      [Call_set_local_optimizer (next_handle w0) (Suc (next_handle w0)),
       Call_optimize (next_handle w0) initvals]"
    unfolding w_run_def w4_def w3_def
    by (simp add: calls_record_call nlopt_set_local_optimizer_def calls_set_up_prefix c2)
  have a: "take (length (calls w0)) (calls w_run) = calls w0"
    by (simp add: c_run)
  have b: "filter is_lifetime (new_calls w0 w_run) =
        map (\<lambda>(alg, h). Call_create alg (length initvals) h) (acquired tag (next_handle w0))"
    by (simp add: new_calls_append [OF c_run] NLoptAlgComb w3_def w4_def filter_lifetime_set_up)
  have opt: "optimize solver tag opt func initvals bounds indeterminate w0 =
      (\<lparr>resultcode = code (solver (next_handle w0) initvals w_run),
           optimum = point (solver (next_handle w0) initvals w_run),
           score = (case final_score (solver (next_handle w0) initvals w_run) of
                      None \<Rightarrow> indeterminate | Some f \<Rightarrow> f)\<rparr>,
       NLopt_dtor (next_handle w0) (NLopt_dtor (Suc (next_handle w0))
         (w_run\<lparr>env := env_after (solver (next_handle w0) initvals w_run),
                calls := calls w_run @ calls_during (solver (next_handle w0) initvals w_run)\<rparr>)))"
    by (simp add: NLoptAlgComb optimize_comb_def optimize_nl_eq w_run_def w4_def w3_def w2_def
        w1_def NLopt_ctor_def nlopt_create_def Let_def next_handle_record_call)
  have n_run: "next_handle w_run = Suc (Suc (next_handle w0))"
    by (simp add: w_run_def w4_def w3_def next_handle_record_call next_handle_set_up n2
        nlopt_set_local_optimizer_def)
  have c: "calls (snd (optimize solver tag opt func initvals bounds indeterminate w0)) =
        calls w_run @ calls_during (solver (next_handle w0) initvals w_run) @
        map Call_destroy (rev (map snd (acquired tag (next_handle w0))))"
    unfolding opt by (simp add: NLopt_dtor_def nlopt_destroy_def calls_record_call NLoptAlgComb)
  have d: "next_handle (snd (optimize solver tag opt func initvals bounds indeterminate w0)) =
        next_handle w0 + length (acquired tag (next_handle w0))"
    unfolding opt by (simp add: NLopt_dtor_def nlopt_destroy_def next_handle_record_call NLoptAlgComb n_run)
  from a b c d opt show ?thesis by (intro exI [of _ w_run]) simp
qed

subsection \<open>C9: setters and getters of StopCriteria\<close>




subsection \<open>C10: the direction has no default\<close>

text \<open>
  C10: the constructor gives the direction no value, so an optimizer on which neither
  \<open>to_min\<close> nor \<open>to_max\<close> was called holds whatever value \<open>v\<close> its storage held;
  \<open>to_min\<close> and \<open>to_max\<close> store \<open>MIN\<close> and \<open>MAX\<close>. When \<open>v\<close> is neither
  \<open>MIN\<close> nor \<open>MAX\<close>, \<open>set_up\<close> installs no objective, neither to minimise nor to
  maximise.
\<close>

theorem direction_has_no_default:
  "m_dir (m_opt (Optimizer_ctor stopcr v)) = v
   \<and> m_dir (m_opt (to_min opt)) = OptDir_MIN
   \<and> m_dir (m_opt (to_max opt)) = OptDir_MAX
   \<and> (v \<noteq> OptDir_MIN \<and> v \<noteq> OptDir_MAX \<longrightarrow>
        filter is_objective
          (new_calls w (set_up (m_opt (Optimizer_ctor stopcr v)) nl func bounds w)) = [])"
  by (simp add: Optimizer_ctor_def NLoptOpt_ctor_def to_min_def to_max_def set_dir_def
      new_calls_append [OF calls_set_up])

theorem direction_has_no_default_witness:
  "(2 :: OptDir) \<noteq> OptDir_MIN \<and> (2 :: OptDir) \<noteq> OptDir_MAX
   \<and> m_dir (m_opt (Optimizer_ctor (StopCriteria_default :: unit StopCriteria) 2)) = 2
   \<and> filter is_objective
        (new_calls \<lparr>env = (), calls = [], next_handle = 1, stack = []\<rparr>
           (set_up (m_opt (Optimizer_ctor StopCriteria_default 2)) 0 (\<lambda>args e. (Finite 0, e))
              [Bound_ctor (Some (Finite 0)) (Some (Finite 1))]
              \<lparr>env = (), calls = [], next_handle = 1, stack = []\<rparr>)) = []"
  using direction_has_no_default [where stopcr = "StopCriteria_default :: unit StopCriteria"
      and v = 2 and opt = "Optimizer_ctor (StopCriteria_default :: unit StopCriteria) 2"
      and w = "\<lparr>env = (), calls = [], next_handle = 1, stack = []\<rparr>" and nl = 0
      and func = "\<lambda>args e. (Finite 0, e)"
      and bounds = "[Bound_ctor (Some (Finite 0)) (Some (Finite 1))]"]
  by (simp add: OptDir_MIN_def OptDir_MAX_def)

end
